theory Spec2Isabelle
  imports Complex_Main "HOL-Library.AList"
begin

section \<open>Order execution engine: data model\<close>

text \<open>
  The engine is a TypeScript service: an HTTP gateway enqueues swap orders, a queue worker
  runs the lifecycle of each order (routing between two mock venues, settlement), publishes
  status events on an in-process event emitter, writes the order row to a relational store
  and appends routing decisions to an in-memory log.

  JavaScript numbers are modelled as rationals (the idealised values of the doubles), time
  stamps as milliseconds since the epoch, and the values of \<^verbatim>\<open>Math.random()\<close> are inputs
  of the functions that draw them.  \<^verbatim>\<open>await sleep(ms)\<close> only delays a call and is not
  modelled; the clock is a field of the world that the handler reads.
\<close>

subsection \<open>JSON values\<close>

datatype jsval =
    JNull
  | JBool bool
  | JNum rat
  | JStr string
  | JArr "jsval list"
  | JObj "(string \<times> jsval) list"

type_synonym obj = "(string \<times> jsval) list"

subsection \<open>types.ts\<close>

datatype OrderType = Market | Limit | Sniper

datatype DexName = Raydium | Meteora

fun typeStr :: "OrderType \<Rightarrow> string" where
  "typeStr Market = ''market''"
| "typeStr Limit = ''limit''"
| "typeStr Sniper = ''sniper''"

fun dexStr :: "DexName \<Rightarrow> string" where
  "dexStr Raydium = ''raydium''"
| "dexStr Meteora = ''meteora''"

record Order =
  orderId :: string
  tokenIn :: string
  tokenOut :: string
  amount :: rat
  orderType :: OrderType
  orderStatus :: "string option"
  createdAt :: "nat option"

record DexQuote =
  dex :: DexName
  price :: rat
  fee :: rat

record SwapResult =
  txHash :: string
  executedPrice :: rat

datatype error = Error string

fun message :: "error \<Rightarrow> string" where
  "message (Error m) = m"

text \<open>\<^verbatim>\<open>err?.message || String(err)\<close>: the message, or the rendering of an error whose
  message is empty.\<close>

definition errorMsg :: "error \<Rightarrow> string" where
  "errorMsg err = (if message err \<noteq> [] then message err else ''Error'')"

subsection \<open>Rendering numbers\<close>

definition digitChar :: "nat \<Rightarrow> char" where
  "digitChar d = ''0123456789abcdefghijklmnopqrstuvwxyz'' ! d"

text \<open>\<^verbatim>\<open>n.toString(b)\<close> of a non-negative integer, \<open>2 \<le> b \<le> 36\<close>.\<close>

function toStringRadix :: "nat \<Rightarrow> nat \<Rightarrow> string" where
  "toStringRadix b n =
     (if n < b \<or> b < 2 then [digitChar n]
      else toStringRadix b (n div b) @ [digitChar (n mod b)])"
  by pat_completeness auto
termination
  by (relation "measure (\<lambda>(b, n). n)") auto

declare toStringRadix.simps [simp del]

text \<open>\<^verbatim>\<open>x.toFixed(f)\<close> for \<open>\<bar>x\<bar> < 10^21\<close>: the integer \<open>n\<close> nearest to \<open>\<bar>x\<bar> * 10^f\<close> (the
  larger one of two), its decimal digits padded with zeros to \<open>f + 1\<close> places, the point
  before the last \<open>f\<close> digits, and the sign of \<open>x\<close>.\<close>

definition padZeros :: "nat \<Rightarrow> string \<Rightarrow> string" where
  "padZeros f m = replicate (Suc f - length m) CHR ''0'' @ m"

definition insertPoint :: "nat \<Rightarrow> string \<Rightarrow> string" where
  "insertPoint f m =
     (if f = 0 then m else take (length m - f) m @ ''.'' @ drop (length m - f) m)"

definition toFixed :: "nat \<Rightarrow> rat \<Rightarrow> string" where
  "toFixed f x =
     (if x < 0 then ''-'' else []) @
     insertPoint f (padZeros f (toStringRadix 10 (nat \<lfloor>\<bar>x\<bar> * 10 ^ f + 1 / 2\<rfloor>)))"

subsection \<open>dex/mockDex.ts\<close>

definition basePrice :: rat where
  "basePrice = 100"

text \<open>The argument \<open>u\<close> of a quote is the value of \<^verbatim>\<open>Math.random()\<close> drawn for its price.\<close>

definition getRaydiumQuote :: "rat \<Rightarrow> string \<Rightarrow> string \<Rightarrow> rat \<Rightarrow> DexQuote" where
  "getRaydiumQuote u tIn tOut amt =
     \<lparr>dex = Raydium, price = basePrice * (98 / 100 + u * (4 / 100)), fee = 3 / 1000\<rparr>"

definition getMeteoraQuote :: "rat \<Rightarrow> string \<Rightarrow> string \<Rightarrow> rat \<Rightarrow> DexQuote" where
  "getMeteoraQuote u tIn tOut amt =
     \<lparr>dex = Meteora, price = basePrice * (97 / 100 + u * (5 / 100)), fee = 2 / 1000\<rparr>"

text \<open>\<open>executeSwap now uFail uPrice uHash\<close>: \<open>now\<close> is \<^verbatim>\<open>Date.now()\<close>, the three draws are
  those of the failure test, of the executed price and of the hash suffix.  The prices and
  the product under \<^verbatim>\<open>Math.floor\<close> are computed exactly, where the program rounds to doubles.\<close>

definition executeSwap ::
  "nat \<Rightarrow> rat \<Rightarrow> rat \<Rightarrow> rat \<Rightarrow> DexName \<Rightarrow> Order \<Rightarrow> error + SwapResult" where
  "executeSwap now uFail uPrice uHash d order =
     (if uFail < 2 / 100 then Inl (Error ''Simulated network execution failure'')
      else Inr \<lparr>txHash = ''MOCK_TX_'' @ toStringRadix 36 now @ ''_'' @
                          toStringRadix 10 (nat \<lfloor>uHash * 10000\<rfloor>),
                executedPrice = basePrice * (98 / 100 + uPrice * (4 / 100))\<rparr>)"

subsection \<open>Request bodies\<close>

text \<open>A JavaScript number, and a value as \<^verbatim>\<open>JSON.parse\<close> returns it.  The body of a request is
  such a value: the submission route casts it to \<^verbatim>\<open>Partial<Order>\<close> without validating it, so
  its fields may hold values of any type.\<close>

datatype jsnumber = Finite rat | PosInfinity | NegInfinity | NaN

datatype bodyval =
    VNull
  | VBool bool
  | VNum jsnumber
  | VStr string
  | VArr "bodyval list"
  | VObj "(string \<times> bodyval) list"

text \<open>The order object that the route builds from the body, and the job that it enqueues.\<close>

record SubmittedOrder =
  so_orderId :: string
  so_tokenIn :: bodyval
  so_tokenOut :: bodyval
  so_amount :: jsnumber
  so_type :: bodyval
  so_createdAt :: nat

subsection \<open>The world: queue, store, log, event bus\<close>

record Backoff =
  backoffType :: string
  delay :: nat

record JobOpts =
  jobId :: string
  attempts :: nat
  backoff :: Backoff

record Job =
  jobName :: string
  jobData :: Order
  jobOpts :: JobOpts

record QueuedJob =
  q_name :: string
  q_data :: SubmittedOrder
  q_opts :: JobOpts

text \<open>A row of the table \<^verbatim>\<open>orders\<close> (db/schema.sql).\<close>

record row =
  row_id :: nat
  order_id :: string
  token_in :: string
  token_out :: string
  db_amount :: rat
  order_type :: string
  status :: string
  chosen_dex :: "string option"
  tx_hash :: "string option"
  executed_price :: "rat option"
  error_message :: "string option"
  created_at :: nat
  updated_at :: nat

record LogEntry =
  timestamp :: nat
  logOrderId :: string
  event :: string
  logData :: "jsval option"

text \<open>The order in which events are published on the bus and writes are issued to the
  store: \<open>Published key ev\<close> for \<^verbatim>\<open>orderEvents.emit(key, ev)\<close>, \<open>DbInsert id status\<close> for a call of
  \<open>saveOrder\<close> and \<open>DbWrite id status\<close> for a call of \<open>updateOrderStatus\<close>, whether the store
  accepts the statement or not.\<close>

datatype effect =
    Published string obj
  | DbInsert string string
  | DbWrite string string

record world =
  clock :: nat
  minted :: nat
  queue :: "QueuedJob list"
  orders :: "row list"
  orders_id_seq :: nat
  faults :: "bool list"
  stderr :: "string list"
  logs :: "LogEntry list"
  listeners :: "(string \<times> nat) list"
  sockets :: "(string \<times> nat) list"
  openSockets :: "nat set"
  outbox :: "(nat \<times> jsval) list"
  history :: "effect list"

text \<open>Computations that may throw: the result is \<open>Inl\<close> the error or \<open>Inr\<close> the value,
  with the world as the computation left it.\<close>

type_synonym 'a io = "world \<Rightarrow> (error + 'a) \<times> world"

definition io_return :: "'a \<Rightarrow> 'a io" where
  "io_return x w = (Inr x, w)"

definition io_throw :: "error \<Rightarrow> 'a io" where
  "io_throw e w = (Inl e, w)"

definition io_bind :: "'a io \<Rightarrow> ('a \<Rightarrow> 'b io) \<Rightarrow> 'b io" where
  "io_bind m f w = (case m w of (Inl e, w') \<Rightarrow> (Inl e, w') | (Inr x, w') \<Rightarrow> f x w')"

definition io_catch :: "'a io \<Rightarrow> (error \<Rightarrow> 'a io) \<Rightarrow> 'a io" where
  "io_catch m h w = (case m w of (Inl e, w') \<Rightarrow> h e w' | (Inr x, w') \<Rightarrow> (Inr x, w'))"

subsection \<open>utils/logger.ts\<close>

text \<open>\<open>logRouting\<close> appends one entry to the process-wide log (its \<^verbatim>\<open>console.log\<close> line is
  not modelled).\<close>

definition logRouting :: "string \<Rightarrow> string \<Rightarrow> jsval option \<Rightarrow> unit io" where
  "logRouting oid ev d w =
     (Inr (), w\<lparr>logs := logs w @
        [\<lparr>timestamp = clock w, logOrderId = oid, event = ev, logData = d\<rparr>]\<rparr>)"

definition getLogs :: "string option \<Rightarrow> world \<Rightarrow> LogEntry list" where
  "getLogs oid w =
     (case oid of
        None \<Rightarrow> logs w
      | Some i \<Rightarrow> if i \<noteq> [] then filter (\<lambda>l. logOrderId l = i) (logs w) else logs w)"

subsection \<open>db/database.ts\<close>

text \<open>\<open>pool_query stmt\<close> runs one statement.  The next element of \<open>faults\<close> tells whether the
  store rejects it (connection lost, constraint violated): then the query throws and the
  table is left as it was.\<close>

definition pool_query :: "(world \<Rightarrow> world) \<Rightarrow> unit io" where
  "pool_query stmt w =
     (case faults w of
        [] \<Rightarrow> (Inr (), stmt w)
      | f # fs \<Rightarrow>
          if f then (Inl (Error ''query failed''), w\<lparr>faults := fs\<rparr>)
          else (Inr (), stmt (w\<lparr>faults := fs\<rparr>)))"

text \<open>\<^verbatim>\<open>INSERT INTO orders (...) VALUES ($1, ..., $7) ON CONFLICT (order_id) DO NOTHING\<close>.
  The serial \<open>id\<close> is drawn from the sequence before the conflict is detected; the columns
  not listed are null, \<open>updated_at\<close> takes its default.\<close>

definition sqlInsert ::
  "string \<Rightarrow> string \<Rightarrow> string \<Rightarrow> rat \<Rightarrow> string \<Rightarrow> string \<Rightarrow> nat \<Rightarrow> world \<Rightarrow> world" where
  "sqlInsert oid tIn tOut amt ty st created w =
     (let w' = w\<lparr>orders_id_seq := Suc (orders_id_seq w)\<rparr>
      in if oid \<in> order_id ` set (orders w) then w'
         else w'\<lparr>orders := orders w @
                [\<lparr>row_id = orders_id_seq w, order_id = oid, token_in = tIn, token_out = tOut,
                  db_amount = amt, order_type = ty, status = st, chosen_dex = None,
                  tx_hash = None, executed_price = None, error_message = None,
                  created_at = created, updated_at = clock w\<rparr>]\<rparr>)"

definition saveOrder :: "Order \<Rightarrow> unit io" where
  "saveOrder order =
     io_catch
       (io_bind (\<lambda>w. (Inr (), w\<lparr>history := history w @ [DbInsert (orderId order) ''pending'']\<rparr>))
          (\<lambda>_ w. pool_query
             (sqlInsert (orderId order) (tokenIn order) (tokenOut order) (amount order)
                (typeStr (orderType order)) ''pending''
                (case createdAt order of Some t \<Rightarrow> t | None \<Rightarrow> clock w)) w))
       (\<lambda>err w. (Inr (), w\<lparr>stderr := stderr w @ [''Save order error:'']\<rparr>))"

text \<open>The \<^verbatim>\<open>SET\<close> list that \<open>updateOrderStatus\<close> builds, and
  \<^verbatim>\<open>UPDATE orders SET ... WHERE order_id = $1\<close>.\<close>

datatype assignment =
    SetStatus string
  | SetUpdatedAt
  | SetChosenDex string
  | SetTxHash string
  | SetExecutedPrice rat
  | SetErrorMessage string

fun applySet :: "nat \<Rightarrow> row \<Rightarrow> assignment \<Rightarrow> row" where
  "applySet now r (SetStatus s) = r\<lparr>status := s\<rparr>"
| "applySet now r SetUpdatedAt = r\<lparr>updated_at := now\<rparr>"
| "applySet now r (SetChosenDex d) = r\<lparr>chosen_dex := Some d\<rparr>"
| "applySet now r (SetTxHash h) = r\<lparr>tx_hash := Some h\<rparr>"
| "applySet now r (SetExecutedPrice p) = r\<lparr>executed_price := Some p\<rparr>"
| "applySet now r (SetErrorMessage m) = r\<lparr>error_message := Some m\<rparr>"

definition sqlUpdate :: "assignment list \<Rightarrow> string \<Rightarrow> world \<Rightarrow> world" where
  "sqlUpdate updates oid w =
     w\<lparr>orders := map (\<lambda>r. if order_id r = oid then foldl (applySet (clock w)) r updates else r)
                    (orders w)\<rparr>"

record StatusData =
  d_chosenDex :: "string option"
  d_txHash :: "string option"
  d_executedPrice :: "rat option"
  d_error :: "string option"

definition noData :: StatusData where
  "noData = \<lparr>d_chosenDex = None, d_txHash = None, d_executedPrice = None, d_error = None\<rparr>"

text \<open>A string is truthy when it is present and not empty.\<close>

fun truthyStr :: "string option \<Rightarrow> bool" where
  "truthyStr None = False"
| "truthyStr (Some s) = (s \<noteq> [])"

definition updateOrderStatus :: "string \<Rightarrow> string \<Rightarrow> StatusData option \<Rightarrow> unit io" where
  "updateOrderStatus oid st data =
     io_catch
       (let d = (case data of None \<Rightarrow> noData | Some x \<Rightarrow> x);
            updates = [SetStatus st, SetUpdatedAt]
              @ (if truthyStr (d_chosenDex d) then [SetChosenDex (the (d_chosenDex d))] else [])
              @ (if truthyStr (d_txHash d) then [SetTxHash (the (d_txHash d))] else [])
              @ (case d_executedPrice d of Some p \<Rightarrow> [SetExecutedPrice p] | None \<Rightarrow> [])
              @ (if truthyStr (d_error d) then [SetErrorMessage (the (d_error d))] else [])
        in io_bind (\<lambda>w. (Inr (), w\<lparr>history := history w @ [DbWrite oid st]\<rparr>))
             (\<lambda>_. pool_query (sqlUpdate updates oid)))
       (\<lambda>err w. (Inr (), w\<lparr>stderr := stderr w @ [''Update order status error:'']\<rparr>))"

subsection \<open>The event bus and the subscription channel (orders/controller.ts)\<close>

text \<open>\<open>listeners\<close> holds, in the order of registration, the forwarding handlers: the key
  they are registered for (the order id of the subscription) and their socket.  A handler
  sends \<^verbatim>\<open>{...ev, orderId}\<close> when its socket is open.\<close>

definition socket_send :: "nat \<Rightarrow> jsval \<Rightarrow> world \<Rightarrow> world" where
  "socket_send sock m w = w\<lparr>outbox := outbox w @ [(sock, m)]\<rparr>"

definition handler :: "nat \<Rightarrow> string \<Rightarrow> obj \<Rightarrow> world \<Rightarrow> world" where
  "handler sock oid ev w =
     (if sock \<in> openSockets w
      then socket_send sock (JObj (AList.update ''orderId'' (JStr oid) ev)) w
      else w)"

text \<open>\<^verbatim>\<open>orderEvents.emit(key, ev)\<close> calls the handlers registered for \<open>key\<close>, synchronously and
  in the order of registration.\<close>

definition emit :: "string \<Rightarrow> obj \<Rightarrow> unit io" where
  "emit key ev w =
     (Inr (), foldl (\<lambda>w' sock. handler sock key ev w')
                (w\<lparr>history := history w @ [Published key ev]\<rparr>)
                (map snd (filter (\<lambda>l. fst l = key) (listeners w))))"

text \<open>The message handler of the socket route.  \<open>msg\<close> is the parsed message, \<open>None\<close> when
  \<^verbatim>\<open>JSON.parse\<close> throws.  Reading \<^verbatim>\<open>data.orderId\<close> throws on \<^verbatim>\<open>null\<close>.  (The close handler that
  the subscription registers on the socket is not modelled.)\<close>

definition onMessage :: "nat \<Rightarrow> jsval option \<Rightarrow> world \<Rightarrow> world" where
  "onMessage sock msg w =
     (let invalid = socket_send sock (JObj [(''error'', JStr ''invalid subscribe payload'')]) w
      in case msg of
           None \<Rightarrow> invalid
         | Some JNull \<Rightarrow> invalid
         | Some (JObj props) \<Rightarrow>
             (case map_of props ''orderId'' of
                Some (JStr oid) \<Rightarrow>
                  if oid \<noteq> [] then
                    (let w1 = w\<lparr>sockets := AList.update oid sock (sockets w)\<rparr>;
                         w2 = socket_send sock
                                (JObj [(''status'', JStr ''pending''), (''orderId'', JStr oid)]) w1
                     in w2\<lparr>listeners := listeners w2 @ [(oid, sock)]\<rparr>)
                  else w
              | _ \<Rightarrow> w)
         | Some _ \<Rightarrow> w)"

subsection \<open>orders/worker.ts\<close>

text \<open>The draws of \<^verbatim>\<open>Math.random()\<close> that one run of the handler consumes: the prices of the
  two quotes, the failure test of the settlement, its executed price and its hash suffix.\<close>

record draws =
  uRaydium :: rat
  uMeteora :: rat
  uFail :: rat
  uExec :: rat
  uHash :: rat

text \<open>\<^verbatim>\<open>const chosen = rQ.price >= mQ.price ? rQ : mQ\<close>\<close>

definition chosen :: "DexQuote \<Rightarrow> DexQuote \<Rightarrow> DexQuote" where
  "chosen rQ mQ = (if price rQ \<ge> price mQ then rQ else mQ)"

text \<open>The payload of the entry \<^verbatim>\<open>'DEX comparison completed'\<close>.\<close>

definition comparison :: "DexQuote \<Rightarrow> DexQuote \<Rightarrow> DexQuote \<Rightarrow> jsval" where
  "comparison rQ mQ ch =
     JObj [(''raydium'', JObj [(''price'', JNum (price rQ)), (''fee'', JNum (fee rQ))]),
           (''meteora'', JObj [(''price'', JNum (price mQ)), (''fee'', JNum (fee mQ))]),
           (''chosen'', JStr (dexStr (dex ch))),
           (''reason'', JStr (''Better price: '' @ toFixed 4 (price ch)))]"

text \<open>The events that the handler publishes.\<close>

definition routingEvent :: "string \<Rightarrow> obj" where
  "routingEvent oid = [(''status'', JStr ''routing''), (''orderId'', JStr oid)]"

definition buildingEvent :: "string \<Rightarrow> DexQuote \<Rightarrow> obj" where
  "buildingEvent oid ch =
     [(''status'', JStr ''building''), (''orderId'', JStr oid),
      (''metadata'', JObj [(''dex'', JStr (dexStr (dex ch))), (''price'', JNum (price ch))])]"

definition submittedEvent :: "string \<Rightarrow> DexQuote \<Rightarrow> obj" where
  "submittedEvent oid ch =
     [(''status'', JStr ''submitted''), (''orderId'', JStr oid),
      (''metadata'', JObj [(''dex'', JStr (dexStr (dex ch)))])]"

definition confirmedEvent :: "string \<Rightarrow> SwapResult \<Rightarrow> DexQuote \<Rightarrow> obj" where
  "confirmedEvent oid res ch =
     [(''status'', JStr ''confirmed''), (''orderId'', JStr oid),
      (''metadata'', JObj [(''txHash'', JStr (txHash res)),
                           (''executedPrice'', JNum (executedPrice res)),
                           (''dex'', JStr (dexStr (dex ch)))])]"

definition failedEvent :: "string \<Rightarrow> string \<Rightarrow> obj" where
  "failedEvent oid msg =
     [(''status'', JStr ''failed''), (''orderId'', JStr oid),
      (''metadata'', JObj [(''error'', JStr msg)])]"

text \<open>The job handler: the \<^verbatim>\<open>try\<close> block, and the \<^verbatim>\<open>catch\<close> block that publishes and persists
  \<^verbatim>\<open>failed\<close> and throws the error again.\<close>

definition worker :: "draws \<Rightarrow> Job \<Rightarrow> SwapResult io" where
  "worker env job =
     (let order = jobData job; oid = orderId order in
      io_catch
        (io_bind (saveOrder order) (\<lambda>_.
         io_bind (updateOrderStatus oid ''pending'' None) (\<lambda>_.
         io_bind (emit oid (routingEvent oid)) (\<lambda>_.
         io_bind (updateOrderStatus oid ''routing'' None) (\<lambda>_.
         io_bind (logRouting oid ''Starting DEX routing''
                    (Some (JObj [(''tokenIn'', JStr (tokenIn order)),
                                 (''tokenOut'', JStr (tokenOut order)),
                                 (''amount'', JNum (amount order))]))) (\<lambda>_.
         let rQ = getRaydiumQuote (uRaydium env) (tokenIn order) (tokenOut order) (amount order);
             mQ = getMeteoraQuote (uMeteora env) (tokenIn order) (tokenOut order) (amount order);
             ch = chosen rQ mQ
         in
         io_bind (logRouting oid ''DEX comparison completed'' (Some (comparison rQ mQ ch))) (\<lambda>_.
         io_bind (emit oid (buildingEvent oid ch)) (\<lambda>_.
         io_bind (updateOrderStatus oid ''building''
                    (Some (noData\<lparr>d_chosenDex := Some (dexStr (dex ch))\<rparr>))) (\<lambda>_.
         io_bind (logRouting oid ''Building transaction''
                    (Some (JObj [(''dex'', JStr (dexStr (dex ch)))]))) (\<lambda>_.
         io_bind (emit oid (submittedEvent oid ch)) (\<lambda>_.
         io_bind (updateOrderStatus oid ''submitted'' None) (\<lambda>_.
         io_bind (logRouting oid ''Transaction submitted to network''
                    (Some (JObj [(''dex'', JStr (dexStr (dex ch)))]))) (\<lambda>_.
         io_bind (\<lambda>w. (executeSwap (clock w) (uFail env) (uExec env) (uHash env) (dex ch) order,
                       w)) (\<lambda>res.
         io_bind (emit oid (confirmedEvent oid res ch)) (\<lambda>_.
         io_bind (updateOrderStatus oid ''confirmed''
                    (Some (noData\<lparr>d_txHash := Some (txHash res),
                                  d_executedPrice := Some (executedPrice res)\<rparr>))) (\<lambda>_.
         io_bind (logRouting oid ''Transaction confirmed''
                    (Some (JObj [(''txHash'', JStr (txHash res)),
                                 (''executedPrice'', JNum (executedPrice res))]))) (\<lambda>_.
         io_return res)))))))))))))))))
        (\<lambda>err.
         let msg = errorMsg err in
         io_bind (emit oid (failedEvent oid msg)) (\<lambda>_.
         io_bind (updateOrderStatus oid ''failed'' (Some (noData\<lparr>d_error := Some msg\<rparr>))) (\<lambda>_.
         io_bind (logRouting oid ''Transaction failed'' (Some (JObj [(''error'', JStr msg)]))) (\<lambda>_.
         io_throw err)))))"

text \<open>The listener \<^verbatim>\<open>worker.on('failed', (job, err) => ...)\<close>.\<close>

definition onFailed :: "Job option \<Rightarrow> error \<Rightarrow> unit io" where
  "onFailed job err =
     (case job of
        None \<Rightarrow> io_return ()
      | Some j \<Rightarrow>
          if orderId (jobData j) \<noteq> [] then
            (let oid = orderId (jobData j); msg = errorMsg err in
             io_bind (emit oid (failedEvent oid msg)) (\<lambda>_.
             io_bind (updateOrderStatus oid ''failed'' (Some (noData\<lparr>d_error := Some msg\<rparr>))) (\<lambda>_.
             logRouting oid ''Job failed after retries'' (Some (JObj [(''error'', JStr msg)])))))
          else io_return ())"

subsection \<open>The submission route (orders/controller.ts)\<close>

datatype reply = Reply nat jsval

text \<open>\<open>truthy v\<close>: the test \<^verbatim>\<open>!v\<close> fails.  \<open>None\<close> is \<^verbatim>\<open>undefined\<close>.\<close>

fun truthy :: "bodyval option \<Rightarrow> bool" where
  "truthy None = False"
| "truthy (Some VNull) = False"
| "truthy (Some (VBool b)) = b"
| "truthy (Some (VNum n)) = (n \<noteq> Finite 0 \<and> n \<noteq> NaN)"
| "truthy (Some (VStr s)) = (s \<noteq> [])"
| "truthy (Some (VArr xs)) = True"
| "truthy (Some (VObj ps)) = True"

text \<open>\<^verbatim>\<open>v.k\<close> for a truthy \<open>v\<close>: the property of an object, \<^verbatim>\<open>undefined\<close> for the keys that the
  route reads on any other value.\<close>

fun getProp :: "bodyval \<Rightarrow> string \<Rightarrow> bodyval option" where
  "getProp (VObj ps) k = map_of ps k"
| "getProp v k = None"

text \<open>\<^verbatim>\<open>Number(v)\<close>.  The conversion of a string, an array or an object by the language is
  the parameter \<open>conv\<close>.\<close>

fun toNumber :: "(bodyval \<Rightarrow> jsnumber) \<Rightarrow> bodyval \<Rightarrow> jsnumber" where
  "toNumber conv (VNum n) = n"
| "toNumber conv (VBool b) = Finite (if b then 1 else 0)"
| "toNumber conv VNull = Finite 0"
| "toNumber conv v = conv v"

definition ordersQueue_add :: "string \<Rightarrow> SubmittedOrder \<Rightarrow> JobOpts \<Rightarrow> world \<Rightarrow> world" where
  "ordersQueue_add name order opts w =
     w\<lparr>queue := queue w @ [\<lparr>q_name = name, q_data = order, q_opts = opts\<rparr>]\<rparr>"

text \<open>\<^verbatim>\<open>POST /api/orders/execute\<close>.  \<open>body\<close> is \<^verbatim>\<open>request.body\<close>, \<open>None\<close> when the request has
  none.  The generator of identifiers (utils/id.ts) is a parameter: \<open>genId n\<close> is the
  identifier that its \<open>n\<close>-th call returns, and \<open>minted\<close> counts the calls.\<close>

definition postExecute ::
  "(nat \<Rightarrow> string) \<Rightarrow> (bodyval \<Rightarrow> jsnumber) \<Rightarrow> bodyval option \<Rightarrow> world \<Rightarrow> reply \<times> world" where
  "postExecute genId conv body w =
     (let bad = (Reply 400 (JObj [(''error'', JStr ''tokenIn, tokenOut and amount required'')]), w)
      in if \<not> truthy body then bad
         else
           (let b = the body in
            if \<not> truthy (getProp b ''tokenIn'') \<or> \<not> truthy (getProp b ''tokenOut'') \<or>
               \<not> truthy (getProp b ''amount'')
            then bad
            else
              (let oid = genId (minted w);
                   w1 = w\<lparr>minted := Suc (minted w)\<rparr>;
                   order = \<lparr>so_orderId = oid, so_tokenIn = the (getProp b ''tokenIn''),
                            so_tokenOut = the (getProp b ''tokenOut''),
                            so_amount = toNumber conv (the (getProp b ''amount'')),
                            so_type = (if truthy (getProp b ''type'') then the (getProp b ''type'')
                                       else VStr ''market''),
                            so_createdAt = clock w1\<rparr>;
                   w2 = ordersQueue_add ''exec'' order
                          \<lparr>jobId = oid, attempts = 3,
                           backoff = \<lparr>backoffType = ''exponential'', delay = 1000\<rparr>\<rparr> w1
               in (Reply 202 (JObj [(''orderId'', JStr oid),
                                    (''ws'', JStr ''/api/orders/execute (websocket)'')]), w2))))"

section \<open>Notions used in the statements\<close>

subsection \<open>What one run of the handler does\<close>

text \<open>The messages that publishing \<open>ev\<close> under \<open>key\<close> sends: one for each handler registered for
  \<open>key\<close> whose socket is open, in the order of registration.\<close>

definition deliveries ::
  "(string \<times> nat) list \<Rightarrow> nat set \<Rightarrow> string \<Rightarrow> obj \<Rightarrow> (nat \<times> jsval) list" where
  "deliveries ls opn key ev =
     map (\<lambda>s. (s, JObj (AList.update ''orderId'' (JStr key) ev)))
       (filter (\<lambda>s. s \<in> opn) (map snd (filter (\<lambda>l. fst l = key) ls)))"

text \<open>The quote that the handler chooses and the outcome of its settlement call.\<close>

definition routed :: "draws \<Rightarrow> Order \<Rightarrow> DexQuote" where
  "routed env order =
     chosen (getRaydiumQuote (uRaydium env) (tokenIn order) (tokenOut order) (amount order))
            (getMeteoraQuote (uMeteora env) (tokenIn order) (tokenOut order) (amount order))"

definition settle :: "nat \<Rightarrow> draws \<Rightarrow> Order \<Rightarrow> error + SwapResult" where
  "settle now env order =
     executeSwap now (uFail env) (uExec env) (uHash env) (dex (routed env order)) order"

definition lastEvent :: "nat \<Rightarrow> draws \<Rightarrow> Order \<Rightarrow> obj" where
  "lastEvent now env order =
     (case settle now env order of
        Inl err \<Rightarrow> failedEvent (orderId order) (errorMsg err)
      | Inr res \<Rightarrow> confirmedEvent (orderId order) res (routed env order))"

definition lastStatus :: "nat \<Rightarrow> draws \<Rightarrow> Order \<Rightarrow> string" where
  "lastStatus now env order =
     (case settle now env order of Inl err \<Rightarrow> ''failed'' | Inr res \<Rightarrow> ''confirmed'')"

definition attemptEvents :: "nat \<Rightarrow> draws \<Rightarrow> Order \<Rightarrow> obj list" where
  "attemptEvents now env order =
     [routingEvent (orderId order),
      buildingEvent (orderId order) (routed env order),
      submittedEvent (orderId order) (routed env order),
      lastEvent now env order]"

definition attemptHistory :: "nat \<Rightarrow> draws \<Rightarrow> Order \<Rightarrow> effect list" where
  "attemptHistory now env order =
     [DbInsert (orderId order) ''pending'',
      DbWrite (orderId order) ''pending'',
      Published (orderId order) (routingEvent (orderId order)),
      DbWrite (orderId order) ''routing'',
      Published (orderId order) (buildingEvent (orderId order) (routed env order)),
      DbWrite (orderId order) ''building'',
      Published (orderId order) (submittedEvent (orderId order) (routed env order)),
      DbWrite (orderId order) ''submitted'',
      Published (orderId order) (lastEvent now env order),
      DbWrite (orderId order) (lastStatus now env order)]"

definition lastLog :: "nat \<Rightarrow> draws \<Rightarrow> Order \<Rightarrow> LogEntry" where
  "lastLog now env order =
     (case settle now env order of
        Inl err \<Rightarrow>
          \<lparr>timestamp = now, logOrderId = orderId order, event = ''Transaction failed'',
           logData = Some (JObj [(''error'', JStr (errorMsg err))])\<rparr>
      | Inr res \<Rightarrow>
          \<lparr>timestamp = now, logOrderId = orderId order, event = ''Transaction confirmed'',
           logData = Some (JObj [(''txHash'', JStr (txHash res)),
                                 (''executedPrice'', JNum (executedPrice res))])\<rparr>)"

definition attemptLogs :: "nat \<Rightarrow> draws \<Rightarrow> Order \<Rightarrow> LogEntry list" where
  "attemptLogs now env order =
     [\<lparr>timestamp = now, logOrderId = orderId order, event = ''Starting DEX routing'',
       logData = Some (JObj [(''tokenIn'', JStr (tokenIn order)),
                             (''tokenOut'', JStr (tokenOut order)),
                             (''amount'', JNum (amount order))])\<rparr>,
      \<lparr>timestamp = now, logOrderId = orderId order, event = ''DEX comparison completed'',
       logData = Some (comparison
         (getRaydiumQuote (uRaydium env) (tokenIn order) (tokenOut order) (amount order))
         (getMeteoraQuote (uMeteora env) (tokenIn order) (tokenOut order) (amount order))
         (routed env order))\<rparr>,
      \<lparr>timestamp = now, logOrderId = orderId order, event = ''Building transaction'',
       logData = Some (JObj [(''dex'', JStr (dexStr (dex (routed env order))))])\<rparr>,
      \<lparr>timestamp = now, logOrderId = orderId order,
       event = ''Transaction submitted to network'',
       logData = Some (JObj [(''dex'', JStr (dexStr (dex (routed env order))))])\<rparr>,
      lastLog now env order]"

subsection \<open>Observations\<close>

text \<open>The status of an event, the statuses published for an order, and the messages that a
  socket has been sent.\<close>

definition statusOf :: "obj \<Rightarrow> string" where
  "statusOf ev = (case map_of ev ''status'' of Some (JStr s) \<Rightarrow> s | _ \<Rightarrow> [])"

fun effectStatus :: "string \<Rightarrow> effect \<Rightarrow> string list" where
  "effectStatus oid (Published k ev) = (if k = oid then [statusOf ev] else [])"
| "effectStatus oid (DbInsert k st) = []"
| "effectStatus oid (DbWrite k st) = []"

definition publishedStatuses :: "string \<Rightarrow> world \<Rightarrow> string list" where
  "publishedStatuses oid w = concat (map (effectStatus oid) (history w))"





subsection \<open>The validation rule as the specification words it\<close>

text \<open>A submission is invalid when \<open>tokenIn\<close> or \<open>tokenOut\<close> is missing or empty, or the
  amount is missing or not positive.\<close>

definition specInvalid :: "bodyval option \<Rightarrow> bool" where
  "specInvalid body =
     (case body of
        Some (VObj ps) \<Rightarrow>
          map_of ps ''tokenIn'' = None \<or> map_of ps ''tokenIn'' = Some (VStr []) \<or>
          map_of ps ''tokenOut'' = None \<or> map_of ps ''tokenOut'' = Some (VStr []) \<or>
          (case map_of ps ''amount'' of
             None \<Rightarrow> True
           | Some (VNum (Finite a)) \<Rightarrow> a \<le> 0
           | Some _ \<Rightarrow> False)
      | _ \<Rightarrow> True)"

text \<open>The rule of the route: the body, \<open>tokenIn\<close>, \<open>tokenOut\<close> or the amount is missing or is
  one of \<^verbatim>\<open>null\<close>, \<^verbatim>\<open>false\<close>, \<^verbatim>\<open>0\<close>, \<^verbatim>\<open>NaN\<close> and the empty string.\<close>

definition absent :: "bodyval option \<Rightarrow> bool" where
  "absent v =
     (v = None \<or> v = Some VNull \<or> v = Some (VBool False) \<or> v = Some (VNum (Finite 0)) \<or>
      v = Some (VNum NaN) \<or> v = Some (VStr []))"

definition routeInvalid :: "bodyval option \<Rightarrow> bool" where
  "routeInvalid body =
     (absent body \<or>
      (case body of
         Some (VObj ps) \<Rightarrow>
           absent (map_of ps ''tokenIn'') \<or> absent (map_of ps ''tokenOut'') \<or>
           absent (map_of ps ''amount'')
       | _ \<Rightarrow> True))"

subsection \<open>Example inputs\<close>

definition w0 :: world where
  "w0 = \<lparr>clock = 1000, minted = 0, queue = [], orders = [], orders_id_seq = 1, faults = [],
         stderr = [], logs = [], listeners = [], sockets = [], openSockets = {7},
         outbox = [], history = []\<rparr>"

definition orderA :: Order where
  "orderA = \<lparr>orderId = ''A'', tokenIn = ''USDC'', tokenOut = ''SOL'', amount = 100,
             orderType = Market, orderStatus = None, createdAt = Some 900\<rparr>"

definition jobA :: Job where
  "jobA = \<lparr>jobName = ''exec'', jobData = orderA,
           jobOpts = \<lparr>jobId = ''A'', attempts = 3,
                      backoff = \<lparr>backoffType = ''exponential'', delay = 1000\<rparr>\<rparr>\<rparr>"

text \<open>Draws with which the settlement succeeds, and draws with which it fails.\<close>

definition drawsOk :: draws where
  "drawsOk = \<lparr>uRaydium = 1 / 2, uMeteora = 1 / 2, uFail = 1 / 2, uExec = 1 / 4, uHash = 1 / 3\<rparr>"

definition drawsFail :: draws where
  "drawsFail = \<lparr>uRaydium = 1 / 2, uMeteora = 1 / 2, uFail = 1 / 100, uExec = 1 / 4, uHash = 1 / 3\<rparr>"

definition networkError :: error where
  "networkError = Error ''Simulated network execution failure''"

definition subscribeA :: "jsval option" where
  "subscribeA = Some (JObj [(''orderId'', JStr ''A'')])"

definition genIdEx :: "nat \<Rightarrow> string" where
  "genIdEx n = ''id-'' @ toStringRadix 10 n"

text \<open>An order that fails its first attempt and is confirmed by the second, with a subscriber
  on socket 7: the subscription, the handler, the \<^verbatim>\<open>failed\<close> listener, and the handler again.\<close>

definition afterSubscribe :: world where
  "afterSubscribe = onMessage 7 subscribeA w0"

definition afterAttempt1 :: world where
  "afterAttempt1 = snd (worker drawsFail jobA afterSubscribe)"

definition afterListener :: world where
  "afterListener = snd (onFailed (Some jobA) networkError afterAttempt1)"

definition retryRun :: world where
  "retryRun = snd (worker drawsOk jobA afterListener)"

section \<open>Properties of the primitives\<close>

lemma io_bind_ok: "fst (m w) = Inr x \<Longrightarrow> io_bind m f w = f x (snd (m w))"
  by (cases "m w") (simp add: io_bind_def)

lemma io_bind_unit: "fst (m w) = Inr () \<Longrightarrow> io_bind m f w = f () (snd (m w))"
  by (rule io_bind_ok)

lemma io_bind_pure:
  "io_bind (\<lambda>w. (r w, w)) f w = (case r w of Inl e \<Rightarrow> (Inl e, w) | Inr x \<Rightarrow> f x w)"
  by (simp add: io_bind_def)

lemma foldl_handler:
  "foldl (\<lambda>w' sock. handler sock key ev w') w ss =
     w\<lparr>outbox := outbox w @ map (\<lambda>s. (s, JObj (AList.update ''orderId'' (JStr key) ev)))
                                (filter (\<lambda>s. s \<in> openSockets w) ss)\<rparr>"
proof (induction ss arbitrary: w)
  case Nil
  show ?case by simp
next
  case (Cons x xs)
  have "foldl (\<lambda>w' sock. handler sock key ev w') w (x # xs) =
        foldl (\<lambda>w' sock. handler sock key ev w') (handler x key ev w) xs"
    by simp
  also have "\<dots> = (handler x key ev w)\<lparr>outbox := outbox (handler x key ev w) @
       map (\<lambda>s. (s, JObj (AList.update ''orderId'' (JStr key) ev)))
         (filter (\<lambda>s. s \<in> openSockets (handler x key ev w)) xs)\<rparr>"
    by (rule Cons.IH)
  also have "\<dots> = w\<lparr>outbox := outbox w @
       map (\<lambda>s. (s, JObj (AList.update ''orderId'' (JStr key) ev)))
         (filter (\<lambda>s. s \<in> openSockets w) (x # xs))\<rparr>"
    by (simp add: handler_def socket_send_def)
  finally show ?case .
qed

lemma emit_fst: "fst (emit key ev w) = Inr ()"
  by (simp add: emit_def)

lemma emit_snd:
  "snd (emit key ev w) =
     w\<lparr>history := history w @ [Published key ev],
       outbox := outbox w @ deliveries (listeners w) (openSockets w) key ev\<rparr>"
  by (simp add: emit_def foldl_handler deliveries_def)

lemma logRouting_fst: "fst (logRouting oid ev d w) = Inr ()"
  by (simp add: logRouting_def)

lemma logRouting_snd:
  "snd (logRouting oid ev d w) =
     w\<lparr>logs := logs w @ [\<lparr>timestamp = clock w, logOrderId = oid, event = ev, logData = d\<rparr>]\<rparr>"
  by (simp add: logRouting_def)

lemma saveOrder_fst: "fst (saveOrder order w) = Inr ()"
  by (simp add: saveOrder_def io_catch_def io_bind_def pool_query_def
        split: list.splits prod.splits sum.splits)

lemma updateOrderStatus_fst: "fst (updateOrderStatus oid st d w) = Inr ()"
  by (simp add: updateOrderStatus_def io_catch_def io_bind_def pool_query_def Let_def
        split: list.splits prod.splits sum.splits)

lemma saveOrder_frame:
  shows "clock (snd (saveOrder order w)) = clock w"
    and "minted (snd (saveOrder order w)) = minted w"
    and "queue (snd (saveOrder order w)) = queue w"
    and "logs (snd (saveOrder order w)) = logs w"
    and "listeners (snd (saveOrder order w)) = listeners w"
    and "sockets (snd (saveOrder order w)) = sockets w"
    and "openSockets (snd (saveOrder order w)) = openSockets w"
    and "outbox (snd (saveOrder order w)) = outbox w"
    and "history (snd (saveOrder order w)) = history w @ [DbInsert (orderId order) ''pending'']"
  by (simp_all add: saveOrder_def io_catch_def io_bind_def pool_query_def sqlInsert_def Let_def
        split: list.splits prod.splits sum.splits)

lemma updateOrderStatus_frame:
  shows "clock (snd (updateOrderStatus oid st d w)) = clock w"
    and "minted (snd (updateOrderStatus oid st d w)) = minted w"
    and "queue (snd (updateOrderStatus oid st d w)) = queue w"
    and "logs (snd (updateOrderStatus oid st d w)) = logs w"
    and "listeners (snd (updateOrderStatus oid st d w)) = listeners w"
    and "sockets (snd (updateOrderStatus oid st d w)) = sockets w"
    and "openSockets (snd (updateOrderStatus oid st d w)) = openSockets w"
    and "outbox (snd (updateOrderStatus oid st d w)) = outbox w"
    and "history (snd (updateOrderStatus oid st d w)) = history w @ [DbWrite oid st]"
  by (simp_all add: updateOrderStatus_def io_catch_def io_bind_def pool_query_def sqlUpdate_def
        Let_def split: list.splits prod.splits sum.splits)

lemmas step_simps =
  io_bind_unit io_bind_pure saveOrder_fst updateOrderStatus_fst emit_fst logRouting_fst
  saveOrder_frame updateOrderStatus_frame logRouting_snd emit_snd
  settle_def routed_def io_throw_def io_return_def

section \<open>One run of the handler\<close>

lemma worker_fst: "fst (worker env job w) = settle (clock w) env (jobData job)"
  unfolding worker_def Let_def
  by (subst io_catch_def, cases "settle (clock w) env (jobData job)")
     (simp_all add: step_simps)

lemma worker_frame:
  shows "clock (snd (worker env job w)) = clock w"
    and "minted (snd (worker env job w)) = minted w"
    and "queue (snd (worker env job w)) = queue w"
    and "listeners (snd (worker env job w)) = listeners w"
    and "sockets (snd (worker env job w)) = sockets w"
    and "openSockets (snd (worker env job w)) = openSockets w"
  unfolding worker_def Let_def
  by (subst io_catch_def, cases "settle (clock w) env (jobData job)",
      simp_all add: step_simps)+

lemma worker_history:
  "history (snd (worker env job w)) = history w @ attemptHistory (clock w) env (jobData job)"
  unfolding worker_def Let_def
  by (subst io_catch_def, cases "settle (clock w) env (jobData job)")
     (simp_all add: step_simps attemptHistory_def lastEvent_def lastStatus_def)

lemma worker_logs:
  "logs (snd (worker env job w)) = logs w @ attemptLogs (clock w) env (jobData job)"
  unfolding worker_def Let_def
  by (subst io_catch_def, cases "settle (clock w) env (jobData job)")
     (simp_all add: step_simps attemptLogs_def lastLog_def)

lemma worker_outbox:
  "outbox (snd (worker env job w)) =
     outbox w @ concat (map (deliveries (listeners w) (openSockets w) (orderId (jobData job)))
                          (attemptEvents (clock w) env (jobData job)))"
  unfolding worker_def Let_def
  by (subst io_catch_def, cases "settle (clock w) env (jobData job)")
     (simp_all add: step_simps attemptEvents_def lastEvent_def)

section \<open>Routing\<close>

text \<open>
  C1.  For every pair of quotes the routing step selects the quote whose price is the
  maximum of the two prices, and the Raydium quote (the first listed) when the prices are
  equal.  Every run of the handler appends to the decision log the entry
  \<^verbatim>\<open>'DEX comparison completed'\<close> of its order, which holds the price and the fee of both
  quotes, the name of the chosen venue, and the justification that cites the chosen price,
  the maximum of the two.
\<close>

theorem routing_selects_max_price:
  fixes rQ mQ :: DexQuote and env :: draws and job :: Job and w :: world
  shows
    "price (chosen rQ mQ) = max (price rQ) (price mQ) \<and>
     (chosen rQ mQ = rQ \<or> chosen rQ mQ = mQ) \<and>
     (price rQ = price mQ \<longrightarrow> chosen rQ mQ = rQ) \<and>
     (let order = jobData job;
          r = getRaydiumQuote (uRaydium env) (tokenIn order) (tokenOut order) (amount order);
          m = getMeteoraQuote (uMeteora env) (tokenIn order) (tokenOut order) (amount order);
          c = chosen r m
      in dex r = Raydium \<and> dex m = Meteora \<and>
         price c = max (price r) (price m) \<and>
         (price r = price m \<longrightarrow> dex c = Raydium) \<and>
         \<lparr>timestamp = clock w, logOrderId = orderId order,
          event = ''DEX comparison completed'',
          logData = Some (JObj
            [(''raydium'', JObj [(''price'', JNum (price r)), (''fee'', JNum (fee r))]),
             (''meteora'', JObj [(''price'', JNum (price m)), (''fee'', JNum (fee m))]),
             (''chosen'', JStr (dexStr (dex c))),
             (''reason'', JStr (''Better price: '' @ toFixed 4 (max (price r) (price m))))])\<rparr>
           \<in> set (logs (snd (worker env job w))))"
proof -
  define order where "order = jobData job"
  define r where
    "r = getRaydiumQuote (uRaydium env) (tokenIn order) (tokenOut order) (amount order)"
  define m where
    "m = getMeteoraQuote (uMeteora env) (tokenIn order) (tokenOut order) (amount order)"
  have sel: "price (chosen a b) = max (price a) (price b)" for a b
    by (simp add: chosen_def max_def)
  have tie: "price a = price b \<longrightarrow> chosen a b = a" for a b
    by (simp add: chosen_def)
  have one: "chosen a b = a \<or> chosen a b = b" for a b
    by (simp add: chosen_def)
  have venues: "dex r = Raydium" "dex m = Meteora"
    by (simp_all add: r_def m_def getRaydiumQuote_def getMeteoraQuote_def)
  have tie_venue: "price r = price m \<longrightarrow> dex (chosen r m) = Raydium"
    using tie [of r m] venues by auto
  have "attemptLogs (clock w) env order ! 1 \<in> set (logs (snd (worker env job w)))"
    by (simp add: worker_logs attemptLogs_def order_def)
  moreover have "attemptLogs (clock w) env order ! 1 =
      \<lparr>timestamp = clock w, logOrderId = orderId order,
       event = ''DEX comparison completed'',
       logData = Some (JObj
         [(''raydium'', JObj [(''price'', JNum (price r)), (''fee'', JNum (fee r))]),
          (''meteora'', JObj [(''price'', JNum (price m)), (''fee'', JNum (fee m))]),
          (''chosen'', JStr (dexStr (dex (chosen r m)))),
          (''reason'', JStr (''Better price: '' @ toFixed 4 (max (price r) (price m))))])\<rparr>"
    by (simp add: attemptLogs_def routed_def comparison_def r_def m_def sel)
  ultimately have entry:
     "\<lparr>timestamp = clock w, logOrderId = orderId order,
       event = ''DEX comparison completed'',
       logData = Some (JObj
         [(''raydium'', JObj [(''price'', JNum (price r)), (''fee'', JNum (fee r))]),
          (''meteora'', JObj [(''price'', JNum (price m)), (''fee'', JNum (fee m))]),
          (''chosen'', JStr (dexStr (dex (chosen r m)))),
          (''reason'', JStr (''Better price: '' @ toFixed 4 (max (price r) (price m))))])\<rparr>
        \<in> set (logs (snd (worker env job w)))"
    by simp
  have part2:
    "dex r = Raydium \<and> dex m = Meteora \<and> price (chosen r m) = max (price r) (price m) \<and>
     (price r = price m \<longrightarrow> dex (chosen r m) = Raydium) \<and>
     \<lparr>timestamp = clock w, logOrderId = orderId order,
       event = ''DEX comparison completed'',
       logData = Some (JObj
         [(''raydium'', JObj [(''price'', JNum (price r)), (''fee'', JNum (fee r))]),
          (''meteora'', JObj [(''price'', JNum (price m)), (''fee'', JNum (fee m))]),
          (''chosen'', JStr (dexStr (dex (chosen r m)))),
          (''reason'', JStr (''Better price: '' @ toFixed 4 (max (price r) (price m))))])\<rparr>
        \<in> set (logs (snd (worker env job w)))"
    using venues sel [of r m] tie_venue entry by blast
  show ?thesis
    unfolding Let_def
    using sel [of rQ mQ] one [of rQ mQ] tie [of rQ mQ] part2 [unfolded r_def m_def order_def]
    by blast
qed

theorem routing_selects_max_price_witness:
  "price (chosen \<lparr>dex = Raydium, price = 100, fee = 3 / 1000\<rparr>
                 \<lparr>dex = Meteora, price = 100, fee = 2 / 1000\<rparr>) = 100 \<and>
   chosen \<lparr>dex = Raydium, price = 100, fee = 3 / 1000\<rparr>
          \<lparr>dex = Meteora, price = 100, fee = 2 / 1000\<rparr>
     = \<lparr>dex = Raydium, price = 100, fee = 3 / 1000\<rparr> \<and>
   \<lparr>timestamp = 1000, logOrderId = ''A'', event = ''DEX comparison completed'',
    logData = Some (JObj
      [(''raydium'', JObj [(''price'', JNum 100), (''fee'', JNum (3 / 1000))]),
       (''meteora'', JObj [(''price'', JNum 100), (''fee'', JNum (2 / 1000))]),
       (''chosen'', JStr ''raydium''),
       (''reason'', JStr ''Better price: 100.0000'')])\<rparr>
     \<in> set (logs (snd (worker (drawsOk\<lparr>uMeteora := 3 / 5\<rparr>) jobA w0)))"
proof -
  have n: "\<lfloor>\<bar>100::rat\<bar> * 10 ^ 4 + 1 / 2\<rfloor> = 1000000"
    by (simp add: floor_eq_iff)
  have d: "toStringRadix 10 1000000 = ''1000000''"
    by (simp add: toStringRadix.simps digitChar_def)
  have fx: "toFixed 4 100 = ''100.0000''"
    unfolding toFixed_def n by (simp add: d padZeros_def insertPoint_def)
  show ?thesis
    using routing_selects_max_price
      [of "\<lparr>dex = Raydium, price = 100, fee = 3 / 1000\<rparr>"
          "\<lparr>dex = Meteora, price = 100, fee = 2 / 1000\<rparr>"
          jobA "drawsOk\<lparr>uMeteora := 3 / 5\<rparr>" w0]
    by (simp add: Let_def fx jobA_def orderA_def drawsOk_def w0_def chosen_def
          getRaydiumQuote_def getMeteoraQuote_def basePrice_def)
qed

section \<open>Submission\<close>

lemma truthy_absent: "truthy v \<longleftrightarrow> \<not> absent v"
proof (cases v)
  case None
  then show ?thesis by (simp add: absent_def)
next
  case (Some x)
  then show ?thesis
    by (cases x) (auto simp: absent_def)
qed

lemma routeInvalid_truthy:
  "routeInvalid body \<longleftrightarrow>
     \<not> truthy body \<or> \<not> truthy (getProp (the body) ''tokenIn'') \<or>
     \<not> truthy (getProp (the body) ''tokenOut'') \<or> \<not> truthy (getProp (the body) ''amount'')"
proof (cases body)
  case None
  then show ?thesis by (simp add: routeInvalid_def absent_def)
next
  case (Some b)
  then show ?thesis
    by (cases b) (auto simp: routeInvalid_def truthy_absent absent_def)
qed

text \<open>
  C2, as the specification words it, fails: a negative amount is not positive, yet the route
  accepts it, mints an identifier and enqueues the job.
\<close>

theorem negative_amount_accepted:
  "specInvalid (Some (VObj [(''tokenIn'', VStr ''USDC''), (''tokenOut'', VStr ''SOL''),
                            (''amount'', VNum (Finite (- 5)))])) \<and>
   fst (postExecute genIdEx (\<lambda>v. NaN)
          (Some (VObj [(''tokenIn'', VStr ''USDC''), (''tokenOut'', VStr ''SOL''),
                       (''amount'', VNum (Finite (- 5)))])) w0)
     = Reply 202 (JObj [(''orderId'', JStr ''id-0''),
                        (''ws'', JStr ''/api/orders/execute (websocket)'')]) \<and>
   minted (snd (postExecute genIdEx (\<lambda>v. NaN)
          (Some (VObj [(''tokenIn'', VStr ''USDC''), (''tokenOut'', VStr ''SOL''),
                       (''amount'', VNum (Finite (- 5)))])) w0)) = 1 \<and>
   map (\<lambda>j. so_amount (q_data j)) (queue (snd (postExecute genIdEx (\<lambda>v. NaN)
          (Some (VObj [(''tokenIn'', VStr ''USDC''), (''tokenOut'', VStr ''SOL''),
                       (''amount'', VNum (Finite (- 5)))])) w0))) = [Finite (- 5)]"
proof -
  have id0: "genIdEx 0 = ''id-0''"
    by (simp add: genIdEx_def toStringRadix.simps digitChar_def)
  show ?thesis
    by (simp add: specInvalid_def postExecute_def Let_def ordersQueue_add_def w0_def id0)
qed

text \<open>
  C2, amended.  The body of a request is unvalidated JSON.  The route rejects a request
  with status 400 exactly when the body, \<open>tokenIn\<close>, \<open>tokenOut\<close> or the amount is missing or
  falsy, that is \<^verbatim>\<open>null\<close>, \<^verbatim>\<open>false\<close>, \<^verbatim>\<open>0\<close>, \<^verbatim>\<open>NaN\<close> or the empty string; every other value of
  any type is accepted, a negative amount and the string \<^verbatim>\<open>"0"\<close> among them.  A rejection
  leaves the world as it was: no identifier is minted, no job is enqueued, no log entry is
  written.  An accepted request is answered with status 202, the fresh order id and the
  subscription hint; the only effects are the minted identifier and one job at the end of
  the queue, carrying the tokens as the body has them, the amount converted by \<^verbatim>\<open>Number\<close>,
  three attempts and exponential backoff, so nothing of the order has been processed when
  the reply is sent.
\<close>

theorem submission_validation:
  "((\<exists>e. fst (postExecute genId conv body w) = Reply 400 e) \<longleftrightarrow> routeInvalid body) \<and>
   (routeInvalid body \<longrightarrow>
      snd (postExecute genId conv body w) = w \<and>
      minted (snd (postExecute genId conv body w)) = minted w \<and>
      queue (snd (postExecute genId conv body w)) = queue w \<and>
      logs (snd (postExecute genId conv body w)) = logs w) \<and>
   (\<not> routeInvalid body \<longrightarrow>
      fst (postExecute genId conv body w) =
        Reply 202 (JObj [(''orderId'', JStr (genId (minted w))),
                         (''ws'', JStr ''/api/orders/execute (websocket)'')]) \<and>
      snd (postExecute genId conv body w) =
        w\<lparr>minted := Suc (minted w),
          queue := queue w @
            [\<lparr>q_name = ''exec'',
              q_data =
                \<lparr>so_orderId = genId (minted w),
                 so_tokenIn = the (getProp (the body) ''tokenIn''),
                 so_tokenOut = the (getProp (the body) ''tokenOut''),
                 so_amount = toNumber conv (the (getProp (the body) ''amount'')),
                 so_type = (if absent (getProp (the body) ''type'') then VStr ''market''
                            else the (getProp (the body) ''type'')),
                 so_createdAt = clock w\<rparr>,
              q_opts = \<lparr>jobId = genId (minted w), attempts = 3,
                        backoff = \<lparr>backoffType = ''exponential'', delay = 1000\<rparr>\<rparr>\<rparr>]\<rparr>)"
proof (cases "routeInvalid body")
  case True
  then have "postExecute genId conv body w =
      (Reply 400 (JObj [(''error'', JStr ''tokenIn, tokenOut and amount required'')]), w)"
    unfolding routeInvalid_truthy by (auto simp: postExecute_def Let_def)
  with True show ?thesis by simp
next
  case False
  then have t: "truthy body" "truthy (getProp (the body) ''tokenIn'')"
      "truthy (getProp (the body) ''tokenOut'')" "truthy (getProp (the body) ''amount'')"
    unfolding routeInvalid_truthy by simp_all
  show ?thesis
    using False t
    by (simp add: postExecute_def Let_def ordersQueue_add_def truthy_absent)
qed

theorem submission_validation_witness:
  "routeInvalid (Some (VObj [(''tokenIn'', VStr ''USDC''), (''amount'', VNum (Finite 100))])) \<and>
   postExecute genIdEx (\<lambda>v. NaN)
     (Some (VObj [(''tokenIn'', VStr ''USDC''), (''amount'', VNum (Finite 100))])) w0
     = (Reply 400 (JObj [(''error'', JStr ''tokenIn, tokenOut and amount required'')]), w0) \<and>
   routeInvalid (Some (VObj [(''tokenIn'', VBool False), (''tokenOut'', VStr ''SOL''),
                             (''amount'', VNum (Finite 100))])) \<and>
   snd (postExecute genIdEx (\<lambda>v. NaN)
     (Some (VObj [(''tokenIn'', VBool False), (''tokenOut'', VStr ''SOL''),
                  (''amount'', VNum (Finite 100))])) w0) = w0 \<and>
   \<not> routeInvalid (Some (VObj [(''tokenIn'', VStr ''USDC''), (''tokenOut'', VStr ''SOL''),
                               (''amount'', VStr ''0'')])) \<and>
   fst (postExecute genIdEx (\<lambda>v. if v = VStr ''0'' then Finite 0 else NaN)
     (Some (VObj [(''tokenIn'', VStr ''USDC''), (''tokenOut'', VStr ''SOL''),
                  (''amount'', VStr ''0'')])) w0)
     = Reply 202 (JObj [(''orderId'', JStr (genIdEx 0)),
                        (''ws'', JStr ''/api/orders/execute (websocket)'')]) \<and>
   map (\<lambda>j. so_amount (q_data j))
     (queue (snd (postExecute genIdEx (\<lambda>v. if v = VStr ''0'' then Finite 0 else NaN)
       (Some (VObj [(''tokenIn'', VStr ''USDC''), (''tokenOut'', VStr ''SOL''),
                    (''amount'', VStr ''0'')])) w0))) = [Finite 0] \<and>
   logs (snd (postExecute genIdEx (\<lambda>v. if v = VStr ''0'' then Finite 0 else NaN)
     (Some (VObj [(''tokenIn'', VStr ''USDC''), (''tokenOut'', VStr ''SOL''),
                  (''amount'', VStr ''0'')])) w0)) = [] \<and>
   history (snd (postExecute genIdEx (\<lambda>v. if v = VStr ''0'' then Finite 0 else NaN)
     (Some (VObj [(''tokenIn'', VStr ''USDC''), (''tokenOut'', VStr ''SOL''),
                  (''amount'', VStr ''0'')])) w0)) = []"
proof -
  have bad1: "routeInvalid (Some (VObj [(''tokenIn'', VStr ''USDC''),
                                        (''amount'', VNum (Finite 100))]))"
    by (simp add: routeInvalid_def absent_def)
  have bad2: "routeInvalid (Some (VObj [(''tokenIn'', VBool False), (''tokenOut'', VStr ''SOL''),
                             (''amount'', VNum (Finite 100))]))"
    by (simp add: routeInvalid_def absent_def)
  have good: "\<not> routeInvalid (Some (VObj [(''tokenIn'', VStr ''USDC''),
                   (''tokenOut'', VStr ''SOL''), (''amount'', VStr ''0'')]))"
    by (simp add: routeInvalid_def absent_def)
  have r: "fst (postExecute genIdEx (\<lambda>v. NaN)
     (Some (VObj [(''tokenIn'', VStr ''USDC''), (''amount'', VNum (Finite 100))])) w0)
     = Reply 400 (JObj [(''error'', JStr ''tokenIn, tokenOut and amount required'')])"
    by (simp add: postExecute_def)
  show ?thesis
    using bad1 bad2 good r
      submission_validation [of genIdEx "\<lambda>v. NaN"
         "Some (VObj [(''tokenIn'', VStr ''USDC''), (''amount'', VNum (Finite 100))])" w0]
      submission_validation [of genIdEx "\<lambda>v. NaN"
         "Some (VObj [(''tokenIn'', VBool False), (''tokenOut'', VStr ''SOL''),
                      (''amount'', VNum (Finite 100))])" w0]
      submission_validation [of genIdEx "\<lambda>v. if v = VStr ''0'' then Finite 0 else NaN"
         "Some (VObj [(''tokenIn'', VStr ''USDC''), (''tokenOut'', VStr ''SOL''),
                      (''amount'', VStr ''0'')])" w0]
    by (auto simp: prod_eq_iff w0_def)
qed

section \<open>The failed listener\<close>

lemma onFailed_fst: "fst (onFailed job err w) = Inr ()"
  by (cases job) (simp_all add: onFailed_def Let_def step_simps)

lemma onFailed_frame:
  shows "clock (snd (onFailed job err w)) = clock w"
    and "minted (snd (onFailed job err w)) = minted w"
    and "queue (snd (onFailed job err w)) = queue w"
    and "listeners (snd (onFailed job err w)) = listeners w"
    and "sockets (snd (onFailed job err w)) = sockets w"
    and "openSockets (snd (onFailed job err w)) = openSockets w"
  by (cases job; simp add: onFailed_def Let_def step_simps)+

lemma onFailed_history:
  "orderId (jobData job) \<noteq> [] \<Longrightarrow>
   history (snd (onFailed (Some job) err w)) =
     history w @ [Published (orderId (jobData job))
                    (failedEvent (orderId (jobData job)) (errorMsg err)),
                  DbWrite (orderId (jobData job)) ''failed'']"
  by (simp add: onFailed_def Let_def step_simps)


section \<open>Statuses of the events\<close>

lemma statuses_simps:
  "statusOf (routingEvent oid) = ''routing''"
  "statusOf (buildingEvent oid ch) = ''building''"
  "statusOf (submittedEvent oid ch) = ''submitted''"
  "statusOf (confirmedEvent oid res ch) = ''confirmed''"
  "statusOf (failedEvent oid msg) = ''failed''"
  by (simp_all add: statusOf_def routingEvent_def buildingEvent_def submittedEvent_def
        confirmedEvent_def failedEvent_def)

lemma lastEvent_status: "statusOf (lastEvent now env order) = lastStatus now env order"
  by (cases "settle now env order") (simp_all add: lastEvent_def lastStatus_def statuses_simps)


lemma published_attempt:
  "concat (map (effectStatus (orderId order)) (attemptHistory now env order)) =
     [''routing'', ''building'', ''submitted'', lastStatus now env order]"
  by (simp add: attemptHistory_def statuses_simps lastEvent_status)


section \<open>The example run\<close>

lemma afterSubscribe_eq:
  "afterSubscribe =
     w0\<lparr>sockets := [(''A'', 7)],
        outbox := [(7, JObj [(''status'', JStr ''pending''), (''orderId'', JStr ''A'')])],
        listeners := [(''A'', 7)]\<rparr>"
  by (simp add: afterSubscribe_def onMessage_def subscribeA_def socket_send_def w0_def Let_def)

lemma settle_fail: "settle now drawsFail orderA = Inl networkError"
  by (simp add: settle_def executeSwap_def drawsFail_def networkError_def)

lemma lastStatus_fail: "lastStatus now drawsFail orderA = ''failed''"
  by (simp add: lastStatus_def settle_fail)

lemma lastStatus_ok: "lastStatus now drawsOk orderA = ''confirmed''"
  by (simp add: lastStatus_def settle_def executeSwap_def drawsOk_def)

lemma jobA_simps: "jobData jobA = orderA" "orderId orderA = ''A''"
  by (simp_all add: jobA_def orderA_def)


lemma retryRun_history:
  "history retryRun =
     attemptHistory (clock w0) drawsFail orderA @
     [Published ''A'' (failedEvent ''A'' (errorMsg networkError)), DbWrite ''A'' ''failed''] @
     attemptHistory (clock w0) drawsOk orderA"
  by (simp add: retryRun_def afterListener_def afterAttempt1_def worker_history worker_frame
        onFailed_history onFailed_frame jobA_simps afterSubscribe_eq w0_def)



section \<open>Terminal events\<close>

text \<open>
  C3.  The claim is that at most one terminal event is published for an order, and never
  \<^verbatim>\<open>confirmed\<close> after \<^verbatim>\<open>failed\<close>.  The handler publishes \<^verbatim>\<open>failed\<close> in its \<^verbatim>\<open>catch\<close> block on every
  failed attempt and throws the error again, so that the job is retried; the listener
  publishes \<^verbatim>\<open>failed\<close> once more.  For the order of the example run, whose settlement fails
  in the first attempt and succeeds in the second, the bus carries \<^verbatim>\<open>failed\<close> twice and then
  \<^verbatim>\<open>confirmed\<close>.
\<close>

theorem failed_published_before_retry_confirms:
  "fst (worker drawsFail jobA afterSubscribe) = Inl networkError \<and>
   \<not> isl (fst (worker drawsOk jobA afterListener)) \<and>
   publishedStatuses ''A'' afterAttempt1 = [''routing'', ''building'', ''submitted'', ''failed''] \<and>
   publishedStatuses ''A'' retryRun =
     [''routing'', ''building'', ''submitted'', ''failed'', ''failed'',
      ''routing'', ''building'', ''submitted'', ''confirmed'']"
proof -
  have a: "fst (worker drawsFail jobA afterSubscribe) = Inl networkError"
    by (simp add: worker_fst jobA_simps settle_fail)
  have b: "\<not> isl (fst (worker drawsOk jobA afterListener))"
    by (simp add: worker_fst jobA_simps settle_def executeSwap_def drawsOk_def)
  have c: "publishedStatuses ''A'' afterAttempt1 =
             [''routing'', ''building'', ''submitted'', ''failed'']"
    using published_attempt [of orderA "clock w0" drawsFail]
    by (simp add: publishedStatuses_def afterAttempt1_def worker_history jobA_simps
          afterSubscribe_eq w0_def lastStatus_fail)
  have d: "publishedStatuses ''A'' retryRun =
     [''routing'', ''building'', ''submitted'', ''failed'', ''failed'',
      ''routing'', ''building'', ''submitted'', ''confirmed'']"
    using published_attempt [of orderA "clock w0" drawsFail]
          published_attempt [of orderA "clock w0" drawsOk]
    by (simp add: publishedStatuses_def retryRun_history jobA_simps statuses_simps
          lastStatus_fail lastStatus_ok)
  show ?thesis
    using a b c d by blast
qed

section \<open>The status sequence\<close>







section \<open>Settlement\<close>

text \<open>
  C7, as stated, fails in one point: the transaction identifier is not unique per call.  It
  is built from the millisecond clock and a random integer below 10000, so two settlements
  (here of two different orders, with different executed prices) that read the same clock
  value and draw the same integer return the same identifier.
\<close>

theorem transaction_id_not_unique:
  "executeSwap 1000 (1 / 2) (1 / 4) (1 / 3) Raydium orderA =
     Inr \<lparr>txHash = ''MOCK_TX_rs_3333'', executedPrice = 99\<rparr> \<and>
   executeSwap 1000 (3 / 4) (3 / 4) (33331 / 100000) Meteora (orderA\<lparr>orderId := ''B''\<rparr>) =
     Inr \<lparr>txHash = ''MOCK_TX_rs_3333'', executedPrice = 101\<rparr>"
proof -
  have f1: "\<lfloor>(1 / 3 :: rat) * 10000\<rfloor> = 3333"
    by (simp add: floor_eq_iff)
  have f2: "\<lfloor>(33331 / 100000 :: rat) * 10000\<rfloor> = 3333"
    by (simp add: floor_eq_iff)
  have a: "toStringRadix 36 1000 = ''rs''"
    by (simp add: toStringRadix.simps digitChar_def)
  have b: "toStringRadix 10 3333 = ''3333''"
    by (simp add: toStringRadix.simps digitChar_def)
  show ?thesis
    unfolding executeSwap_def f1 f2 by (simp add: a b basePrice_def)
qed

text \<open>
  C7, amended.  Every call to \<open>executeSwap\<close> either raises the error of the simulated
  network failure, exactly when the draw of the failure test is below 0.02, or succeeds with
  a result that has both fields: a transaction identifier \<^verbatim>\<open>MOCK_TX_<clock in base 36>_<n>\<close>
  for an integer \<open>n\<close>, which is not empty but need not be unique per call, and an executed
  price that is positive and is computed from its own draw by the formula of the Raydium
  quote.  There is no third outcome.  (No bound on the price other than its sign is stated:
  the model computes in exact arithmetic, the program in doubles.)
\<close>

theorem executeSwap_outcomes:
  assumes "0 \<le> up"
  shows
    "(uf < 2 / 100 \<longrightarrow>
        executeSwap now uf up uh d order =
          Inl (Error ''Simulated network execution failure'')) \<and>
     (\<not> uf < 2 / 100 \<longrightarrow>
        (\<exists>res n. executeSwap now uf up uh d order = Inr res \<and>
           txHash res = ''MOCK_TX_'' @ toStringRadix 36 now @ ''_'' @ toStringRadix 10 n \<and>
           txHash res \<noteq> [] \<and>
           executedPrice res =
             price (getRaydiumQuote up (tokenIn order) (tokenOut order) (amount order)) \<and>
           0 < executedPrice res))"
proof -
  have p: "0 < basePrice * (98 / 100 + up * (4 / 100))"
    using assms by (simp add: basePrice_def add_pos_nonneg)
  show ?thesis
    using p by (auto simp: executeSwap_def getRaydiumQuote_def)
qed

theorem executeSwap_outcomes_witness:
  "(0::rat) \<le> 1 / 4 \<and>
   executeSwap 1000 (1 / 100) (1 / 4) (1 / 3) Raydium orderA =
     Inl (Error ''Simulated network execution failure'') \<and>
   \<not> isl (executeSwap 1000 (1 / 2) (1 / 4) (1 / 3) Raydium orderA) \<and>
   0 < executedPrice (projr (executeSwap 1000 (1 / 2) (1 / 4) (1 / 3) Raydium orderA)) \<and>
   txHash (projr (executeSwap 1000 (1 / 2) (1 / 4) (1 / 3) Raydium orderA)) \<noteq> []"
  using executeSwap_outcomes [of "1 / 4" "1 / 100" 1000 "1 / 3" Raydium orderA]
        executeSwap_outcomes [of "1 / 4" "1 / 2" 1000 "1 / 3" Raydium orderA]
  by auto

section \<open>Persistence failures\<close>

lemma saveOrder_fault:
  "faults w = True # fs \<Longrightarrow>
   orders (snd (saveOrder order w)) = orders w \<and>
   stderr (snd (saveOrder order w)) = stderr w @ [''Save order error:'']"
  by (simp add: saveOrder_def io_catch_def io_bind_def pool_query_def)

lemma updateOrderStatus_fault:
  "faults w = True # fs \<Longrightarrow>
   orders (snd (updateOrderStatus oid st d w)) = orders w \<and>
   stderr (snd (updateOrderStatus oid st d w)) = stderr w @ [''Update order status error:'']"
  by (simp add: updateOrderStatus_def io_catch_def io_bind_def pool_query_def Let_def)

text \<open>
  C8.  \<open>saveOrder\<close> and \<open>updateOrderStatus\<close> never throw: whatever the store does, they
  return normally.  When the store rejects the statement, the table is left as it was and
  the failure is written to the error console.  The lifecycle does not depend on the store:
  with any other sequence of store failures the handler returns the same result (or throws
  the same error) and publishes, sends and logs the same.
\<close>

theorem persistence_failure_not_fatal:
  "fst (saveOrder order w) = Inr () \<and>
   fst (updateOrderStatus oid st d w) = Inr () \<and>
   (faults w = True # fs \<longrightarrow>
      orders (snd (saveOrder order w)) = orders w \<and>
      stderr (snd (saveOrder order w)) = stderr w @ [''Save order error:''] \<and>
      orders (snd (updateOrderStatus oid st d w)) = orders w \<and>
      stderr (snd (updateOrderStatus oid st d w)) = stderr w @ [''Update order status error:'']) \<and>
   fst (worker env job (w\<lparr>faults := fs'\<rparr>)) = fst (worker env job w) \<and>
   history (snd (worker env job (w\<lparr>faults := fs'\<rparr>))) = history (snd (worker env job w)) \<and>
   outbox (snd (worker env job (w\<lparr>faults := fs'\<rparr>))) = outbox (snd (worker env job w)) \<and>
   logs (snd (worker env job (w\<lparr>faults := fs'\<rparr>))) = logs (snd (worker env job w))"
  using saveOrder_fault [of w fs order] updateOrderStatus_fault [of w fs oid st d]
  by (simp add: saveOrder_fst updateOrderStatus_fst worker_fst worker_history worker_outbox
        worker_logs)

theorem persistence_failure_not_fatal_witness:
  "faults (w0\<lparr>faults := [True]\<rparr>) = True # [] \<and>
   saveOrder orderA (w0\<lparr>faults := [True]\<rparr>) =
     (Inr (), w0\<lparr>history := [DbInsert ''A'' ''pending''], stderr := [''Save order error:'']\<rparr>) \<and>
   orders (snd (updateOrderStatus ''A'' ''routing'' None (w0\<lparr>faults := [True]\<rparr>))) = [] \<and>
   fst (worker drawsOk jobA (w0\<lparr>faults := replicate 7 True\<rparr>)) = fst (worker drawsOk jobA w0) \<and>
   history (snd (worker drawsOk jobA (w0\<lparr>faults := replicate 7 True\<rparr>))) =
     history (snd (worker drawsOk jobA w0)) \<and>
   \<not> isl (fst (worker drawsOk jobA (w0\<lparr>faults := replicate 7 True\<rparr>)))"
proof -
  have s: "saveOrder orderA (w0\<lparr>faults := [True]\<rparr>) =
     (Inr (), w0\<lparr>history := [DbInsert ''A'' ''pending''], stderr := [''Save order error:'']\<rparr>)"
    by (simp add: saveOrder_def io_catch_def io_bind_def pool_query_def w0_def orderA_def)
  have c: "\<not> isl (fst (worker drawsOk jobA w0))"
    by (simp add: worker_fst jobA_simps settle_def executeSwap_def drawsOk_def)
  show ?thesis
    using persistence_failure_not_fatal
            [of orderA "w0\<lparr>faults := [True]\<rparr>" "''A''" "''routing''" None "[]" drawsOk jobA
                "replicate 7 True"]
          persistence_failure_not_fatal
            [of orderA w0 "''A''" "''routing''" None "[]" drawsOk jobA "replicate 7 True"]
          s c
    by (simp add: w0_def)
qed

section \<open>The subscription channel\<close>









section \<open>The order row\<close>

lemma saveOrder_orders:
  "orders (snd (saveOrder order w)) = orders w \<or>
   (orderId order \<notin> order_id ` set (orders w) \<and>
    (\<exists>r. order_id r = orderId order \<and> status r = ''pending'' \<and>
         orders (snd (saveOrder order w)) = orders w @ [r]))"
  by (cases "faults w")
     (auto simp: saveOrder_def io_catch_def io_bind_def pool_query_def sqlInsert_def Let_def)

lemma saveOrder_existing:
  "orderId order \<in> order_id ` set (orders w) \<Longrightarrow> orders (snd (saveOrder order w)) = orders w"
  using saveOrder_orders [of order w] by auto

lemma applySet_keeps:
  "order_id (foldl (applySet now) r us) = order_id r \<and>
   created_at (foldl (applySet now) r us) = created_at r \<and>
   row_id (foldl (applySet now) r us) = row_id r"
proof (induction us arbitrary: r)
  case Nil
  show ?case by simp
next
  case (Cons u us)
  show ?case
    by (cases u) (simp_all add: Cons.IH)
qed

lemma sqlUpdate_keeps:
  "map order_id (orders (sqlUpdate us oid w)) = map order_id (orders w) \<and>
   map created_at (orders (sqlUpdate us oid w)) = map created_at (orders w) \<and>
   map row_id (orders (sqlUpdate us oid w)) = map row_id (orders w)"
  by (simp add: sqlUpdate_def applySet_keeps comp_def cong: if_cong)

lemma updateOrderStatus_keeps:
  "map order_id (orders (snd (updateOrderStatus oid st d w))) = map order_id (orders w) \<and>
   map created_at (orders (snd (updateOrderStatus oid st d w))) = map created_at (orders w) \<and>
   map row_id (orders (snd (updateOrderStatus oid st d w))) = map row_id (orders w)"
proof -
  have f: "orders (w\<lparr>history := h\<rparr>) = orders w" "orders (w\<lparr>history := h, faults := fs\<rparr>) = orders w"
    for h fs
    by simp_all
  show ?thesis
    using sqlUpdate_keeps
    by (cases "faults w")
       (simp_all add: updateOrderStatus_def io_catch_def io_bind_def pool_query_def Let_def
          sqlUpdate_keeps [where w = "w\<lparr>history := history w @ [DbWrite oid st]\<rparr>", simplified]
          sqlUpdate_keeps [where w = "w\<lparr>history := history w @ [DbWrite oid st], faults := fs\<rparr>" for fs, simplified])
qed

text \<open>
  C10.  \<open>saveOrder\<close> is idempotent per order id.  The table keeps at most one row for each
  order id: \<open>saveOrder\<close> and \<open>updateOrderStatus\<close> preserve the distinctness of the order ids.
  When a row of the order exists already, as in a retried attempt, \<open>saveOrder\<close> leaves the
  table as it is; in any case it leaves the rows that exist unchanged, and at most appends
  one row for its order, in status \<^verbatim>\<open>pending\<close>.  \<open>updateOrderStatus\<close> changes neither the order
  id nor \<open>created_at\<close> of any row.
\<close>

theorem saveOrder_idempotent:
  "(distinct (map order_id (orders w)) \<longrightarrow>
      distinct (map order_id (orders (snd (saveOrder order w)))) \<and>
      distinct (map order_id (orders (snd (updateOrderStatus oid st d w))))) \<and>
   (orderId order \<in> order_id ` set (orders w) \<longrightarrow>
      orders (snd (saveOrder order w)) = orders w) \<and>
   take (length (orders w)) (orders (snd (saveOrder order w))) = orders w \<and>
   length (orders (snd (saveOrder order w))) \<le> Suc (length (orders w)) \<and>
   map order_id (orders (snd (updateOrderStatus oid st d w))) = map order_id (orders w) \<and>
   map created_at (orders (snd (updateOrderStatus oid st d w))) = map created_at (orders w)"
proof -
  have d1: "distinct (map order_id (orders w)) \<longrightarrow>
      distinct (map order_id (orders (snd (saveOrder order w))))"
    using saveOrder_orders [of order w] by auto
  have d2: "distinct (map order_id (orders w)) \<longrightarrow>
      distinct (map order_id (orders (snd (updateOrderStatus oid st d w))))"
    by (simp add: updateOrderStatus_keeps)
  have e: "orderId order \<in> order_id ` set (orders w) \<longrightarrow>
      orders (snd (saveOrder order w)) = orders w"
    using saveOrder_existing [of order w] by blast
  have t: "take (length (orders w)) (orders (snd (saveOrder order w))) = orders w"
    using saveOrder_orders [of order w] by auto
  have l: "length (orders (snd (saveOrder order w))) \<le> Suc (length (orders w))"
    using saveOrder_orders [of order w] by auto
  show ?thesis
    using d1 d2 e t l updateOrderStatus_keeps [of oid st d w] by blast
qed

theorem saveOrder_idempotent_witness:
  "distinct (map order_id (orders (snd (saveOrder orderA w0)))) \<and>
   orderId (orderA\<lparr>createdAt := Some 5000\<rparr>) \<in> order_id ` set (orders (snd (saveOrder orderA w0))) \<and>
   map created_at (orders (snd (saveOrder orderA w0))) = [900] \<and>
   orders (snd (saveOrder (orderA\<lparr>createdAt := Some 5000\<rparr>) (snd (saveOrder orderA w0)))) =
     orders (snd (saveOrder orderA w0)) \<and>
   distinct (map order_id
     (orders (snd (saveOrder (orderA\<lparr>createdAt := Some 5000\<rparr>) (snd (saveOrder orderA w0))))))"
proof -
  have s: "orders (snd (saveOrder orderA w0)) =
     [\<lparr>row_id = 1, order_id = ''A'', token_in = ''USDC'', token_out = ''SOL'',
       db_amount = 100, order_type = ''market'', status = ''pending'', chosen_dex = None,
       tx_hash = None, executed_price = None, error_message = None,
       created_at = 900, updated_at = 1000\<rparr>]"
    by (simp add: saveOrder_def io_catch_def io_bind_def pool_query_def sqlInsert_def
          w0_def orderA_def)
  have i: "orderId (orderA\<lparr>createdAt := Some 5000\<rparr>) \<in>
      order_id ` set (orders (snd (saveOrder orderA w0)))"
    unfolding s by (simp add: orderA_def)
  have d: "distinct (map order_id (orders (snd (saveOrder orderA w0))))"
    by (simp add: s)
  show ?thesis
    using saveOrder_idempotent
            [of "snd (saveOrder orderA w0)" "orderA\<lparr>createdAt := Some 5000\<rparr>" "''A''"
                "''routing''" None]
          i d
    by (simp add: s)
qed

end
